theory Spec2Isabelle
  imports Complex_Main "HOL-Library.Sublist"
begin

section \<open>Numbers\<close>

text \<open>
  The dashboard is TypeScript; every numeric field has type \<open>number\<close>. A number field
  of a block is modelled as a finite \<^typ>\<open>real\<close>: the values come from numeric literals
  of the source or from JSON, which carries neither NaN nor Infinity. Binary rounding and
  overflow of doubles are not modelled for these fields. What a model of finite values
  cannot leave implicit is
  division: JavaScript's \<open>a / b\<close> with \<open>b\<close> zero yields Infinity, -Infinity or NaN, none
  of which is a finite number. \<open>js_div\<close> returns \<open>None\<close> there; division by a non-zero
  literal of the source (\<open>/ 100\<close>, \<open>/ 3\<close>, \<open>/ 2\<close>) is written as plain division.
\<close>

definition js_div :: "real \<Rightarrow> real \<Rightarrow> real option" where
  "js_div a b = (if b = 0 then None else Some (a / b))"

text \<open>
  \<open>Number(x.toFixed(d))\<close>: the decimal with \<open>d\<close> fraction digits nearest to \<open>x\<close>; of two
  equally near ones \<open>toFixed\<close> takes the larger in magnitude (it rounds the absolute value
  and puts the sign back).
\<close>

definition toFixed :: "nat \<Rightarrow> real \<Rightarrow> real" where
  "toFixed d x =
     (if x < 0 then - (of_int (floor (- x * 10 ^ d + 1 / 2)) / 10 ^ d)
      else of_int (floor (x * 10 ^ d + 1 / 2)) / 10 ^ d)"

text \<open>
  Where a claim is about a number being finite, the non-finite values are part of the
  model. \<open>jsnum\<close> is a \<open>number\<close> with its three non-finite values. Arithmetic on finite
  values is exact, and a result whose magnitude reaches \<open>2^1024 - 2^970\<close>, from where
  round-to-nearest leaves the range of doubles, becomes an infinity, as an overflowing
  double operation does. The special cases follow IEEE 754 as ECMAScript prescribes.
  Rounding of finite results is not modelled, and \<open>-0\<close> is identified with \<open>0\<close>: dividing
  a non-zero number by zero gives the infinity of the numerator's sign.
\<close>

datatype jsnum = Num real | Infinity | NegInfinity | NaN

definition overflow_threshold :: real where
  "overflow_threshold = 2 ^ 1024 - 2 ^ 970"

definition number_of :: "real \<Rightarrow> jsnum" where
  "number_of x =
     (if overflow_threshold \<le> x then Infinity
      else if x \<le> - overflow_threshold then NegInfinity
      else Num x)"

fun num_neg :: "jsnum \<Rightarrow> jsnum" where
  "num_neg (Num x) = Num (- x)"
| "num_neg Infinity = NegInfinity"
| "num_neg NegInfinity = Infinity"
| "num_neg NaN = NaN"

fun num_add :: "jsnum \<Rightarrow> jsnum \<Rightarrow> jsnum" where
  "num_add NaN b = NaN"
| "num_add a NaN = NaN"
| "num_add Infinity NegInfinity = NaN"
| "num_add NegInfinity Infinity = NaN"
| "num_add Infinity b = Infinity"
| "num_add a Infinity = Infinity"
| "num_add NegInfinity b = NegInfinity"
| "num_add a NegInfinity = NegInfinity"
| "num_add (Num x) (Num y) = number_of (x + y)"

definition num_sub :: "jsnum \<Rightarrow> jsnum \<Rightarrow> jsnum" where
  "num_sub a b = num_add a (num_neg b)"

fun num_sgn :: "jsnum \<Rightarrow> real" where
  "num_sgn (Num x) = sgn x"
| "num_sgn Infinity = 1"
| "num_sgn NegInfinity = - 1"
| "num_sgn NaN = 0"

text \<open>A product with an infinity: NaN when the other factor is zero, else by the signs.\<close>

fun num_mul :: "jsnum \<Rightarrow> jsnum \<Rightarrow> jsnum" where
  "num_mul NaN b = NaN"
| "num_mul a NaN = NaN"
| "num_mul (Num x) (Num y) = number_of (x * y)"
| "num_mul a b =
     (if num_sgn a = 0 \<or> num_sgn b = 0 then NaN
      else if num_sgn a = num_sgn b then Infinity
      else NegInfinity)"

text \<open>
  A quotient: \<open>0 / 0\<close> and \<open>Infinity / Infinity\<close> are NaN, a finite number over an
  infinity is 0, an infinity over a finite number keeps or flips its sign.
\<close>

fun num_div :: "jsnum \<Rightarrow> jsnum \<Rightarrow> jsnum" where
  "num_div NaN b = NaN"
| "num_div a NaN = NaN"
| "num_div (Num x) (Num y) =
     (if y = 0 then (if x = 0 then NaN else if 0 < x then Infinity else NegInfinity)
      else number_of (x / y))"
| "num_div (Num x) b = Num 0"
| "num_div a (Num y) = (if 0 \<le> y then a else num_neg a)"
| "num_div a b = NaN"

fun num_max :: "jsnum \<Rightarrow> jsnum \<Rightarrow> jsnum" where
  "num_max NaN b = NaN"
| "num_max a NaN = NaN"
| "num_max Infinity b = Infinity"
| "num_max a Infinity = Infinity"
| "num_max NegInfinity b = b"
| "num_max a NegInfinity = a"
| "num_max (Num x) (Num y) = Num (max x y)"

fun num_min :: "jsnum \<Rightarrow> jsnum \<Rightarrow> jsnum" where
  "num_min NaN b = NaN"
| "num_min a NaN = NaN"
| "num_min NegInfinity b = NegInfinity"
| "num_min a NegInfinity = NegInfinity"
| "num_min Infinity b = b"
| "num_min a Infinity = a"
| "num_min (Num x) (Num y) = Num (min x y)"

text \<open>The falsy numbers are zero and NaN.\<close>

definition falsy :: "jsnum \<Rightarrow> bool" where
  "falsy v = (v = Num 0 \<or> v = NaN)"

section \<open>Sparkline.tsx\<close>

text \<open>
  The component returns either the dashed "No activity yet" box or an SVG polyline. The
  polyline's \<open>points\<close> attribute is kept as the list of coordinate pairs it is printed
  from. The values, the height and the coordinates are \<open>jsnum\<close>s, so that a coordinate
  that is NaN or infinite shows. Stroke colour and CSS class names do not influence the
  coordinates and are left out.
\<close>

datatype sparkline_view =
    NoActivityYet
  | Polyline "(jsnum \<times> jsnum) list"

text \<open>
  \<open>Math.max(...values)\<close> starts from \<open>-Infinity\<close> and \<open>Math.min(...values)\<close> from
  \<open>Infinity\<close>; a NaN among the values makes the result NaN.
\<close>

definition math_max :: "jsnum list \<Rightarrow> jsnum" where
  "math_max vs = fold num_max vs NegInfinity"

definition math_min :: "jsnum list \<Rightarrow> jsnum" where
  "math_min vs = fold num_min vs Infinity"

text \<open>\<open>const range = max - min || 1\<close>\<close>

definition sparkline_range :: "jsnum \<Rightarrow> jsnum \<Rightarrow> jsnum" where
  "sparkline_range mx mn = (if falsy (num_sub mx mn) then Num 1 else num_sub mx mn)"

definition sparkline_width :: jsnum where
  "sparkline_width = Num 100"

text \<open>
  \<open>x = (index / (values.length - 1)) * width\<close> and
  \<open>y = height - ((value - min) / range) * height\<close>
\<close>

definition sparkline_point ::
  "jsnum \<Rightarrow> nat \<Rightarrow> jsnum \<Rightarrow> jsnum \<Rightarrow> nat \<Rightarrow> jsnum \<Rightarrow> jsnum \<times> jsnum" where
  "sparkline_point height n mn rng index v =
     (num_mul (num_div (Num (real index)) (Num (real n - 1))) sparkline_width,
      num_sub height (num_mul (num_div (num_sub v mn) rng) height))"

text \<open>
  \<open>values\<close> is \<open>None\<close> for an absent prop (the \<open>!values\<close> guard); \<open>height\<close> is \<open>None\<close>
  when the caller leaves the default of 36.
\<close>

definition Sparkline :: "jsnum list option \<Rightarrow> jsnum option \<Rightarrow> sparkline_view" where
  "Sparkline values h =
     (case values of
        None \<Rightarrow> NoActivityYet
      | Some vs \<Rightarrow>
          if length vs < 2 then NoActivityYet
          else
            (let height = (case h of None \<Rightarrow> Num 36 | Some x \<Rightarrow> x);
                 mx = math_max vs;
                 mn = math_min vs;
                 rng = sparkline_range mx mn
             in Polyline (map (\<lambda>(index, v). sparkline_point height (length vs) mn rng index v)
                            (enumerate 0 vs))))"

section \<open>BlockStatusCards.tsx\<close>

datatype WasteClass = NORMAL | NECESSARY | POSSIBLE_WASTE | WASTE

text \<open>
  \<open>BlockHistoryPoint\<close>. Field names carry the prefix \<open>point_\<close> because the block record
  below has fields of the same names. \<open>ts\<close> is an ISO-8601 string in the source, printed
  by \<open>toISOString\<close> from a millisecond count; the model keeps the millisecond count.
\<close>

record BlockHistoryPoint =
  point_ts :: int
  point_deviation_pct :: real
  point_energy_kwh :: real
  point_baseline_kwh :: real

text \<open>
  \<open>BlockData\<close>, with the fields the component computes with. An optional field
  (\<open>deviation_pct?\<close>, \<open>history?\<close>, \<open>id?\<close>) is an option. The optional cost, forecast and
  LSTM fields are only printed when present and are left out.
\<close>

record BlockData =
  id :: "string option"
  block :: string
  energy_kwh :: real
  baseline :: real
  occupancy :: real
  temperature :: real
  status :: WasteClass
  savings :: real
  deviation_pct :: "real option"
  history :: "BlockHistoryPoint list option"

text \<open>
  \<open>generateHistory\<close>. \<open>Date.now()\<close> is read once at the start of the call and is the
  parameter \<open>now\<close>, a whole number of milliseconds on which double arithmetic is exact.

  The deviation and the energy are computed in double arithmetic, with \<open>Math.sin\<close> and
  \<open>toFixed\<close> as the engine implements them. The function is therefore written over an
  arithmetic \<open>ar\<close> that is left open, so that what is proved for every arithmetic holds
  for the doubles; \<open>generateHistory\<close> is its instance in exact real arithmetic, the
  abstraction the block fields are held in.
\<close>

record arith =
  a_add :: "real \<Rightarrow> real \<Rightarrow> real"
  a_mul :: "real \<Rightarrow> real \<Rightarrow> real"
  a_div :: "real \<Rightarrow> real \<Rightarrow> real"
  a_sin :: "real \<Rightarrow> real"
  a_toFixed :: "nat \<Rightarrow> real \<Rightarrow> real"

definition exact :: arith where
  "exact = \<lparr> a_add = (+), a_mul = (*), a_div = (/), a_sin = sin, a_toFixed = toFixed \<rparr>"

text \<open>\<open>const deviation = Math.sin(i / 2 + seed) * variance + variance / 3\<close>\<close>

definition history_deviation :: "arith \<Rightarrow> real \<Rightarrow> real \<Rightarrow> nat \<Rightarrow> real" where
  "history_deviation ar variance seed i =
     a_add ar (a_mul ar (a_sin ar (a_add ar (a_div ar (real i) 2) seed)) variance)
              (a_div ar variance 3)"

text \<open>\<open>const energy = baseline * (1 + deviation / 100)\<close>\<close>

definition history_energy :: "arith \<Rightarrow> real \<Rightarrow> real \<Rightarrow> real" where
  "history_energy ar bl deviation = a_mul ar bl (a_add ar 1 (a_div ar deviation 100))"

definition generateHistory_in ::
  "arith \<Rightarrow> int \<Rightarrow> real \<Rightarrow> real \<Rightarrow> real \<Rightarrow> BlockHistoryPoint list" where
  "generateHistory_in ar now bl variance seed =
     map (\<lambda>i.
            let deviation = history_deviation ar variance seed i;
                energy = history_energy ar bl deviation
            in \<lparr> point_ts = now - (16 - int i) * 15000,
                 point_deviation_pct = a_toFixed ar 1 deviation,
                 point_energy_kwh = a_toFixed ar 2 energy,
                 point_baseline_kwh = bl \<rparr>)
         [0 ..< 16]"

definition generateHistory :: "int \<Rightarrow> real \<Rightarrow> real \<Rightarrow> real \<Rightarrow> BlockHistoryPoint list" where
  "generateHistory = generateHistory_in exact"

text \<open>
  \<open>mockBlocks\<close> is built when the module loads, at time \<open>now\<close>. No record gives
  \<open>id\<close> or \<open>deviation_pct\<close>. The dash in the display names is written as a hyphen.
\<close>

definition mock_block ::
  "string \<Rightarrow> real \<Rightarrow> real \<Rightarrow> real \<Rightarrow> real \<Rightarrow> WasteClass \<Rightarrow> real \<Rightarrow> BlockHistoryPoint list \<Rightarrow> BlockData" where
  "mock_block name e b occ temp st sv h =
     \<lparr> id = None, block = name, energy_kwh = e, baseline = b, occupancy = occ,
       temperature = temp, status = st, savings = sv, deviation_pct = None,
       history = Some h \<rparr>"

definition mockBlocks :: "int \<Rightarrow> BlockData list" where
  "mockBlocks now =
     [ mock_block ''Block A - Admin'' 42.3 38.5 85 34 NECESSARY 0 (generateHistory now 38.5 10 1),
       mock_block ''Block B - CS Dept'' 55.1 35.0 12 26 WASTE 20.1 (generateHistory now 35.0 18 2),
       mock_block ''Block C - Library'' 30.2 28.0 60 30 NORMAL 2.2 (generateHistory now 28.0 6 3),
       mock_block ''Block D - Labs'' 48.7 36.0 20 33 POSSIBLE_WASTE 12.7 (generateHistory now 36.0 14 4),
       mock_block ''Block E - Hostel'' 25.4 24.0 70 29 NORMAL 1.4 (generateHistory now 24.0 5 5),
       mock_block ''Block F - Canteen'' 62.0 34.0 8 25 WASTE 28.0 (generateHistory now 34.0 20 6) ]"

definition statusLabel :: "WasteClass \<Rightarrow> string" where
  "statusLabel s =
     (case s of NORMAL \<Rightarrow> ''NORMAL'' | NECESSARY \<Rightarrow> ''NECESSARY''
      | POSSIBLE_WASTE \<Rightarrow> ''POSSIBLE WASTE'' | WASTE \<Rightarrow> ''WASTE'')"

text \<open>
  The props the component computes with. \<open>blocks\<close> and \<open>totalSavingsOverride\<close> are
  \<open>None\<close> when the caller passes \<open>undefined\<close>. Titles, the live label and the click
  handler are passed through to the markup unchanged and are left out.
\<close>

record BlockStatusCardsProps =
  blocks :: "BlockData list option"
  totalSavingsOverride :: "real option"

definition hasLiveData :: "BlockData list option \<Rightarrow> bool" where
  "hasLiveData bs = (case bs of None \<Rightarrow> False | Some xs \<Rightarrow> length xs > 0)"

text \<open>
  \<open>const rows = hasLiveData ? blocks! : blocks ? [] : mockBlocks\<close>. An array, also the
  empty one, is truthy.
\<close>

definition rows :: "int \<Rightarrow> BlockData list option \<Rightarrow> BlockData list" where
  "rows now bs =
     (if hasLiveData bs then (case bs of Some xs \<Rightarrow> xs | None \<Rightarrow> [])
      else if bs \<noteq> None then []
      else mockBlocks now)"

text \<open>\<open>typeof totalSavingsOverride === "number"\<close> holds exactly when the prop is given.\<close>

definition totalSavings :: "real option \<Rightarrow> BlockData list \<Rightarrow> real" where
  "totalSavings override rs =
     (case override of
        Some v \<Rightarrow> v
      | None \<Rightarrow> foldl (\<lambda>sum b. sum + savings b) 0 rs)"

text \<open>
  \<open>const deviation = block.deviation_pct ?? ((block.energy_kwh - block.baseline) /
  block.baseline * 100)\<close>.
\<close>

definition deviation :: "BlockData \<Rightarrow> real option" where
  "deviation b =
     (case deviation_pct b of
        Some d \<Rightarrow> Some d
      | None \<Rightarrow> map_option (\<lambda>q. q * 100) (js_div (energy_kwh b - baseline b) (baseline b)))"

text \<open>
  One card of the grid: the heading, the status badge, the deviation as computed and as
  printed by \<open>toFixed(1)\<close>, the savings as printed, the number of history points and the
  sparkline of the history's deviations at height 34.
\<close>

record card =
  card_heading :: string
  card_status :: string
  card_deviation :: "real option"
  card_deviation_shown :: "real option"
  card_savings_shown :: real
  card_pts :: nat
  card_sparkline :: sparkline_view

definition render_card :: "BlockData \<Rightarrow> card" where
  "render_card b =
     \<lparr> card_heading = block b,
       card_status = statusLabel (status b),
       card_deviation = deviation b,
       card_deviation_shown = map_option (toFixed 1) (deviation b),
       card_savings_shown = toFixed 1 (savings b),
       card_pts = (case history b of None \<Rightarrow> 0 | Some h \<Rightarrow> length h),
       card_sparkline =
         Sparkline
           (Some (map (\<lambda>p. Num (point_deviation_pct p))
                    (case history b of None \<Rightarrow> [] | Some h \<Rightarrow> h)))
           (Some (Num 34)) \<rparr>"

datatype grid =
    Placeholder string
  | Cards "card list"

text \<open>
  What the component renders: the figure of the "Total Potential Savings" banner (printed
  by \<open>toFixed(1)\<close>) and the grid.
\<close>

record cards_view =
  banner_total_savings :: real
  banner_total_savings_shown :: real
  view_grid :: grid

definition BlockStatusCards :: "int \<Rightarrow> BlockStatusCardsProps \<Rightarrow> cards_view" where
  "BlockStatusCards now props =
     (let rs = rows now (blocks props);
          total = totalSavings (totalSavingsOverride props) rs
      in \<lparr> banner_total_savings = total,
           banner_total_savings_shown = toFixed 1 total,
           view_grid =
             (if length rs = 0 then Placeholder ''Waiting for live block data...''
              else Cards (map render_card rs)) \<rparr>)"

section \<open>Dashboard.tsx\<close>

text \<open>
  The snapshot type of \<open>types/dashboard.ts\<close>, with the fields the dashboard's stream label
  and hotspot list read. \<open>BlockStatus\<close> has fields named like those of \<open>BlockData\<close>; they
  carry the prefix \<open>bs_\<close> here, and the snapshot's \<open>blocks\<close> is \<open>snapshot_blocks\<close>.
\<close>

record BlockStatus =
  block_id :: string
  block_label :: string
  bs_energy_kwh :: real
  baseline_kwh :: real
  bs_status :: WasteClass
  savings_kwh :: real
  bs_deviation_pct :: real
  bs_occupancy :: real
  bs_temperature :: real
  bs_history :: "BlockHistoryPoint list option"

datatype pathway_stream_status = WAITING_FOR_DATA | IDLE | LIVE

record PathwayState =
  stream_status :: pathway_stream_status
  events_last_minute :: real
  blocks_updated :: real

record DashboardSnapshot =
  generated_at :: string
  snapshot_blocks :: "BlockStatus list"
  pathway_state :: "PathwayState option"

text \<open>\<open>StreamStatus\<close> of the hook \<open>useDashboardStream\<close>.\<close>

datatype StreamStatus = connecting | live | error

text \<open>
  What one render of \<open>Dashboard\<close> reads: the hook's \<open>data\<close>, \<open>status\<close> and
  \<open>lastMessageAt\<close>, the component's own \<open>fallback\<close> state, and the clock.
\<close>

record DashboardState =
  data :: "DashboardSnapshot option"
  stream :: StreamStatus
  lastMessageAt :: "int option"
  fallback :: "DashboardSnapshot option"
  clock :: int

text \<open>\<open>const snapshot = data ?? fallback\<close>\<close>

definition snapshot :: "DashboardState \<Rightarrow> DashboardSnapshot option" where
  "snapshot st = (case data st of Some d \<Rightarrow> Some d | None \<Rightarrow> fallback st)"

text \<open>\<open>const pathwayState = snapshot?.pathway_state\<close>\<close>

definition pathwayState :: "DashboardState \<Rightarrow> PathwayState option" where
  "pathwayState st = (case snapshot st of None \<Rightarrow> None | Some s \<Rightarrow> pathway_state s)"

definition liveFromEvents :: "DashboardState \<Rightarrow> bool" where
  "liveFromEvents st =
     (stream st = live \<and>
      (case lastMessageAt st of None \<Rightarrow> False | Some t \<Rightarrow> clock st - t < 6000))"

definition waitingForData :: "DashboardState \<Rightarrow> bool" where
  "waitingForData st =
     (case snapshot st of
        None \<Rightarrow> True
      | Some s \<Rightarrow>
          (case pathwayState st of
             None \<Rightarrow> False
           | Some p \<Rightarrow> stream_status p = WAITING_FOR_DATA)
          \<or> length (snapshot_blocks s) = 0)"

definition isLive :: "DashboardState \<Rightarrow> bool" where
  "isLive st = (liveFromEvents st \<and> \<not> waitingForData st)"

definition streamLabel :: "DashboardState \<Rightarrow> string" where
  "streamLabel st =
     (if waitingForData st then ''WAITING FOR DATA''
      else if isLive st then ''LIVE STREAM''
      else ''RECONNECTING'')"

definition hotspots :: "DashboardState \<Rightarrow> BlockStatus list" where
  "hotspots st =
     (case snapshot st of
        None \<Rightarrow> []
      | Some s \<Rightarrow>
          filter (\<lambda>b. bs_status b = WASTE \<or> bs_status b = POSSIBLE_WASTE) (snapshot_blocks s))"



section \<open>The classification engine\<close>

text \<open>
  Modelled from the spec: the repository's \<open>classify()\<close> and the pipeline around it are
  not among the source files, which hold the dashboard only. The definitions of this
  section follow sections 3, 4.5 and 9 of the specification.

  The thresholds are "an explicit configuration struct with named, documented fields
  (tolerance band, occupancy threshold, temperature comfort band)". Rule 2 of section 4.5
  asks for high occupancy "AND/OR" extreme temperature and section 9 leaves that precedence
  to configuration, so the record says whether both are required. Rule 4 computes savings
  "as a fraction of the excess"; the fraction is a field too.
\<close>

record Config =
  tolerance_pct :: real
  occupancy_threshold :: real
  comfort_low_c :: real
  comfort_high_c :: real
  necessary_needs_both :: bool
  possible_waste_fraction :: real

text \<open>
  Modelled from the spec: the enriched record of section 4.4, a telemetry event with the
  block's baseline and the current tariff and carbon intensity attached. The baseline is
  positive by the invariant of \<open>BlockBaseline\<close>.
\<close>

record EnrichedRecord =
  er_block_id :: string
  er_timestamp :: int
  er_energy_kwh :: real
  er_baseline_kwh :: real
  er_occupancy_pct :: real
  er_temperature_c :: real
  er_tariff :: real
  er_carbon_intensity :: real

text \<open>
  Modelled from the spec: the root cause "references which signal(s) triggered the
  decision". Its category is kept as the three findings the template is chosen by; the
  wording of the templates is not specified.
\<close>

datatype deviation_band = WithinTolerance | AboveBaseline | BelowBaseline

record RootCause =
  rc_deviation :: deviation_band
  rc_high_occupancy :: bool
  rc_extreme_temperature :: bool

text \<open>Modelled from the spec: \<open>ClassifiedRecord\<close> of section 3.\<close>

record ClassifiedRecord =
  cr_block_id :: string
  cr_energy_kwh :: real
  cr_baseline_kwh :: real
  cr_deviation_pct :: real
  cr_occupancy_pct :: real
  cr_temperature_c :: real
  cr_status :: WasteClass
  cr_savings_kwh :: real
  cr_cost_inr :: real
  cr_waste_cost_inr :: real
  cr_co2_kg :: real
  cr_root_cause :: RootCause
  cr_updated_at :: int

text \<open>Modelled from the spec: \<open>(energy_kwh - baseline_kwh) / baseline_kwh * 100\<close>.\<close>

definition deviation_of :: "EnrichedRecord \<Rightarrow> real" where
  "deviation_of r = (er_energy_kwh r - er_baseline_kwh r) / er_baseline_kwh r * 100"

text \<open>
  Modelled from the spec: the three findings of section 4.5. Deviation is small "within a
  configured tolerance band, e.g. +-10%"; occupancy is high "above a configured
  threshold" and low otherwise; temperature is extreme "outside a comfortable band".
\<close>

definition band_of :: "Config \<Rightarrow> real \<Rightarrow> deviation_band" where
  "band_of cfg dev =
     (if \<bar>dev\<bar> \<le> tolerance_pct cfg then WithinTolerance
      else if dev > 0 then AboveBaseline
      else BelowBaseline)"

definition high_occupancy :: "Config \<Rightarrow> real \<Rightarrow> bool" where
  "high_occupancy cfg occ = (occ > occupancy_threshold cfg)"

definition extreme_temperature :: "Config \<Rightarrow> real \<Rightarrow> bool" where
  "extreme_temperature cfg t = (t < comfort_low_c cfg \<or> t > comfort_high_c cfg)"

definition justified :: "Config \<Rightarrow> bool \<Rightarrow> bool \<Rightarrow> bool" where
  "justified cfg occ_high temp_extreme =
     (if necessary_needs_both cfg then occ_high \<and> temp_extreme
      else occ_high \<or> temp_extreme)"

text \<open>
  Modelled from the spec: the decision policy of section 4.5, first match wins.
  (1) small deviation: NORMAL; (2) positive deviation with a justification: NECESSARY;
  (3) positive deviation, low occupancy, conditions not extreme: WASTE; (4) otherwise
  POSSIBLE_WASTE.
\<close>

definition decide :: "Config \<Rightarrow> real \<Rightarrow> real \<Rightarrow> real \<Rightarrow> WasteClass" where
  "decide cfg dev occ t =
     (if band_of cfg dev = WithinTolerance then NORMAL
      else if dev > 0 \<and> justified cfg (high_occupancy cfg occ) (extreme_temperature cfg t)
        then NECESSARY
      else if dev > 0 \<and> \<not> high_occupancy cfg occ \<and> \<not> extreme_temperature cfg t
        then WASTE
      else POSSIBLE_WASTE)"

text \<open>
  Modelled from the spec: savings are zero for NORMAL and NECESSARY ("the excess is
  explained"), the full excess for WASTE and a fraction of the excess for POSSIBLE_WASTE.
\<close>

definition savings_of :: "Config \<Rightarrow> WasteClass \<Rightarrow> real \<Rightarrow> real" where
  "savings_of cfg s excess =
     (case s of
        NORMAL \<Rightarrow> 0
      | NECESSARY \<Rightarrow> 0
      | WASTE \<Rightarrow> excess
      | POSSIBLE_WASTE \<Rightarrow> possible_waste_fraction cfg * excess)"

text \<open>
  Modelled from the spec: \<open>classify\<close>, a pure function of the enriched record.
  \<open>cost_inr = energy_kwh * tariff\<close>, \<open>waste_cost_inr = savings_kwh * tariff\<close>,
  \<open>co2_kg = savings_kwh * carbon_intensity\<close>.
\<close>

definition classify :: "Config \<Rightarrow> EnrichedRecord \<Rightarrow> ClassifiedRecord" where
  "classify cfg r =
     (let dev = deviation_of r;
          st = decide cfg dev (er_occupancy_pct r) (er_temperature_c r);
          sv = savings_of cfg st (er_energy_kwh r - er_baseline_kwh r)
      in \<lparr> cr_block_id = er_block_id r,
           cr_energy_kwh = er_energy_kwh r,
           cr_baseline_kwh = er_baseline_kwh r,
           cr_deviation_pct = dev,
           cr_occupancy_pct = er_occupancy_pct r,
           cr_temperature_c = er_temperature_c r,
           cr_status = st,
           cr_savings_kwh = sv,
           cr_cost_inr = er_energy_kwh r * er_tariff r,
           cr_waste_cost_inr = sv * er_tariff r,
           cr_co2_kg = sv * er_carbon_intensity r,
           cr_root_cause =
             \<lparr> rc_deviation = band_of cfg dev,
               rc_high_occupancy = high_occupancy cfg (er_occupancy_pct r),
               rc_extreme_temperature = extreme_temperature cfg (er_temperature_c r) \<rparr>,
           cr_updated_at = er_timestamp r \<rparr>)"

text \<open>
  Modelled from the spec: the events of scenarios A and B of section 8. Scenario A fixes
  tariff and carbon intensity; scenario B does not, so they are parameters there.
\<close>

definition scenario_A :: EnrichedRecord where
  "scenario_A =
     \<lparr> er_block_id = ''B1'', er_timestamp = 0, er_energy_kwh = 55.1, er_baseline_kwh = 35.0,
       er_occupancy_pct = 12, er_temperature_c = 26, er_tariff = 8.0,
       er_carbon_intensity = 0.7 \<rparr>"


section \<open>Properties of BlockStatusCards\<close>

lemma foldl_savings:
  "foldl (\<lambda>sum b. sum + savings b) a rs = a + sum_list (map savings rs)"
  by (induction rs arbitrary: a) simp_all

lemma grid_rows:
  "view_grid (BlockStatusCards now props) =
     (if rows now (blocks props) = [] then Placeholder ''Waiting for live block data...''
      else Cards (map render_card (rows now (blocks props))))"
  by (simp add: BlockStatusCards_def Let_def)

lemma mock_len: "length (mockBlocks now) = 6"
  by (simp add: mockBlocks_def)

lemma mock_nonempty: "mockBlocks now \<noteq> []"
  by (simp add: mockBlocks_def)

lemma rows_None: "rows now None = mockBlocks now"
  by (simp add: rows_def hasLiveData_def)





text \<open>
  Claim C6. Without a \<open>totalSavingsOverride\<close>, the figure of the "Total Potential
  Savings" banner is the sum of \<open>savings\<close> over the rows, printed with one decimal, and
  the rows are exactly the blocks the grid shows a card for.
\<close>

theorem total_savings_is_sum:
  assumes "totalSavingsOverride props = None"
  shows "banner_total_savings (BlockStatusCards now props) =
           sum_list (map savings (rows now (blocks props)))
       \<and> banner_total_savings_shown (BlockStatusCards now props) =
           toFixed 1 (sum_list (map savings (rows now (blocks props))))
       \<and> view_grid (BlockStatusCards now props) =
           (if rows now (blocks props) = [] then Placeholder ''Waiting for live block data...''
            else Cards (map render_card (rows now (blocks props))))"
  using assms by (simp add: BlockStatusCards_def Let_def totalSavings_def foldl_savings)

text \<open>The mock feed: 0 + 20.1 + 2.2 + 12.7 + 1.4 + 28.0 = 64.4.\<close>

theorem total_savings_is_sum_witness:
  "banner_total_savings (BlockStatusCards 0 \<lparr>blocks = None, totalSavingsOverride = None\<rparr>) = 64.4"
  using total_savings_is_sum [of "\<lparr>blocks = None, totalSavingsOverride = None\<rparr>" 0]
  by (simp add: rows_None mockBlocks_def mock_block_def)

text \<open>
  Claim C10. With the \<open>blocks\<close> prop undefined the grid holds the cards of the six mock
  blocks; with the empty array it is the "Waiting for live block data..." placeholder, no
  row is a mock block, and the total computed from the rows is 0.
\<close>

theorem no_feed_versus_empty_feed:
  "view_grid (BlockStatusCards now \<lparr>blocks = None, totalSavingsOverride = ov\<rparr>) =
     Cards (map render_card (mockBlocks now))
   \<and> length (mockBlocks now) = 6
   \<and> view_grid (BlockStatusCards now \<lparr>blocks = Some [], totalSavingsOverride = ov\<rparr>) =
     Placeholder ''Waiting for live block data...''
   \<and> rows now (Some []) = []
   \<and> banner_total_savings (BlockStatusCards now \<lparr>blocks = Some [], totalSavingsOverride = None\<rparr>) = 0"
  by (simp add: grid_rows rows_def hasLiveData_def mock_len mock_nonempty BlockStatusCards_def
      totalSavings_def Let_def)

section \<open>Properties of Dashboard\<close>

text \<open>
  Claim C5. When the current snapshot is absent, or its \<open>pathway_state.stream_status\<close> is
  \<open>WAITING_FOR_DATA\<close>, or its block list is empty, the stream label is "WAITING FOR DATA"
  and not "LIVE STREAM", whatever the connection status and the clock.
\<close>

theorem waiting_label:
  assumes "snapshot st = None
         \<or> (\<exists>p. pathwayState st = Some p \<and> stream_status p = WAITING_FOR_DATA)
         \<or> (\<exists>s. snapshot st = Some s \<and> snapshot_blocks s = [])"
  shows "waitingForData st \<and> streamLabel st = ''WAITING FOR DATA''
       \<and> streamLabel st \<noteq> ''LIVE STREAM''"
proof -
  have "waitingForData st"
    using assms by (auto simp: waitingForData_def pathwayState_def split: option.splits)
  then show ?thesis by (simp add: streamLabel_def)
qed

text \<open>
  One state for each of the three conditions, all on a live connection with a message
  one millisecond old: no snapshot; a snapshot with a block and status \<open>WAITING_FOR_DATA\<close>;
  a snapshot with status \<open>LIVE\<close> and no block.
\<close>

theorem waiting_label_witness:
  "streamLabel \<lparr>data = None, stream = live, lastMessageAt = Some 0, fallback = None, clock = 1\<rparr>
     = ''WAITING FOR DATA''
 \<and> streamLabel
      \<lparr>data = Some \<lparr>generated_at = ''t'',
         snapshot_blocks = [\<lparr>block_id = ''B1'', block_label = ''Block B'', bs_energy_kwh = 55.1,
           baseline_kwh = 35, bs_status = WASTE, savings_kwh = 20.1, bs_deviation_pct = 57.4,
           bs_occupancy = 12, bs_temperature = 26, bs_history = None\<rparr>],
         pathway_state = Some \<lparr>stream_status = WAITING_FOR_DATA, events_last_minute = 0,
           blocks_updated = 0\<rparr>\<rparr>,
       stream = live, lastMessageAt = Some 0, fallback = None, clock = 1\<rparr>
     = ''WAITING FOR DATA''
 \<and> streamLabel
      \<lparr>data = Some \<lparr>generated_at = ''t'', snapshot_blocks = [],
         pathway_state = Some \<lparr>stream_status = LIVE, events_last_minute = 4,
           blocks_updated = 0\<rparr>\<rparr>,
       stream = live, lastMessageAt = Some 0, fallback = None, clock = 1\<rparr>
     = ''WAITING FOR DATA''"
  using
    waiting_label [of "\<lparr>data = None, stream = live, lastMessageAt = Some 0, fallback = None,
      clock = 1\<rparr>"]
    waiting_label [of
      "\<lparr>data = Some \<lparr>generated_at = ''t'',
         snapshot_blocks = [\<lparr>block_id = ''B1'', block_label = ''Block B'', bs_energy_kwh = 55.1,
           baseline_kwh = 35, bs_status = WASTE, savings_kwh = 20.1, bs_deviation_pct = 57.4,
           bs_occupancy = 12, bs_temperature = 26, bs_history = None\<rparr>],
         pathway_state = Some \<lparr>stream_status = WAITING_FOR_DATA, events_last_minute = 0,
           blocks_updated = 0\<rparr>\<rparr>,
       stream = live, lastMessageAt = Some 0, fallback = None, clock = 1\<rparr>"]
    waiting_label [of
      "\<lparr>data = Some \<lparr>generated_at = ''t'', snapshot_blocks = [],
         pathway_state = Some \<lparr>stream_status = LIVE, events_last_minute = 4,
           blocks_updated = 0\<rparr>\<rparr>,
       stream = live, lastMessageAt = Some 0, fallback = None, clock = 1\<rparr>"]
  by (simp add: snapshot_def pathwayState_def)

text \<open>
  Claim C7. For a snapshot \<open>s\<close>, a block is in the hotspot list exactly when it is a block
  of \<open>s\<close> with status \<open>WASTE\<close> or \<open>POSSIBLE_WASTE\<close>; no hotspot has status \<open>NORMAL\<close> or
  \<open>NECESSARY\<close>; such a block occurs as often as in \<open>s\<close>; and the list is a subsequence of
  the snapshot's blocks, so their order is kept.
\<close>

theorem hotspots_exact:
  assumes "snapshot st = Some s"
  shows "(b \<in> set (hotspots st) \<longleftrightarrow>
            b \<in> set (snapshot_blocks s) \<and> (bs_status b = WASTE \<or> bs_status b = POSSIBLE_WASTE))
       \<and> (b \<in> set (hotspots st) \<longrightarrow> bs_status b \<noteq> NORMAL \<and> bs_status b \<noteq> NECESSARY)
       \<and> count_list (hotspots st) b =
            (if bs_status b = WASTE \<or> bs_status b = POSSIBLE_WASTE
             then count_list (snapshot_blocks s) b else 0)
       \<and> subseq (hotspots st) (snapshot_blocks s)"
proof -
  have h: "hotspots st =
      filter (\<lambda>b. bs_status b = WASTE \<or> bs_status b = POSSIBLE_WASTE) (snapshot_blocks s)"
    using assms by (simp add: hotspots_def)
  have c: "count_list (filter P xs) x = (if P x then count_list xs x else 0)"
    for P and xs :: "BlockStatus list" and x
    by (induction xs) auto
  show ?thesis unfolding h by (auto simp: c)
qed

text \<open>
  A snapshot held as fallback with a \<open>WASTE\<close> block and a \<open>NECESSARY\<close> block: the hotspot
  list is the first block alone.
\<close>

theorem hotspots_exact_witness:
  "hotspots \<lparr>data = None, stream = connecting, lastMessageAt = None,
       fallback = Some \<lparr>generated_at = ''t'',
         snapshot_blocks =
           [\<lparr>block_id = ''B1'', block_label = ''Block B'', bs_energy_kwh = 55.1,
              baseline_kwh = 35, bs_status = WASTE, savings_kwh = 20.1, bs_deviation_pct = 57.4,
           bs_occupancy = 12, bs_temperature = 26, bs_history = None\<rparr>,
            \<lparr>block_id = ''B2'', block_label = ''Block A'', bs_energy_kwh = 42.3,
              baseline_kwh = 38.5, bs_status = NECESSARY, savings_kwh = 0, bs_deviation_pct = 9.9,
              bs_occupancy = 85, bs_temperature = 34, bs_history = None\<rparr>],
         pathway_state = None\<rparr>, clock = 0\<rparr>
   = [\<lparr>block_id = ''B1'', block_label = ''Block B'', bs_energy_kwh = 55.1,
              baseline_kwh = 35, bs_status = WASTE, savings_kwh = 20.1, bs_deviation_pct = 57.4,
           bs_occupancy = 12, bs_temperature = 26, bs_history = None\<rparr>]"
  using hotspots_exact [of
    "\<lparr>data = None, stream = connecting, lastMessageAt = None,
       fallback = Some \<lparr>generated_at = ''t'',
         snapshot_blocks =
           [\<lparr>block_id = ''B1'', block_label = ''Block B'', bs_energy_kwh = 55.1,
              baseline_kwh = 35, bs_status = WASTE, savings_kwh = 20.1, bs_deviation_pct = 57.4,
           bs_occupancy = 12, bs_temperature = 26, bs_history = None\<rparr>,
            \<lparr>block_id = ''B2'', block_label = ''Block A'', bs_energy_kwh = 42.3,
              baseline_kwh = 38.5, bs_status = NECESSARY, savings_kwh = 0, bs_deviation_pct = 9.9,
              bs_occupancy = 85, bs_temperature = 34, bs_history = None\<rparr>],
         pathway_state = None\<rparr>, clock = 0\<rparr>"
    "\<lparr>generated_at = ''t'',
         snapshot_blocks =
           [\<lparr>block_id = ''B1'', block_label = ''Block B'', bs_energy_kwh = 55.1,
              baseline_kwh = 35, bs_status = WASTE, savings_kwh = 20.1, bs_deviation_pct = 57.4,
           bs_occupancy = 12, bs_temperature = 26, bs_history = None\<rparr>,
            \<lparr>block_id = ''B2'', block_label = ''Block A'', bs_energy_kwh = 42.3,
              baseline_kwh = 38.5, bs_status = NECESSARY, savings_kwh = 0, bs_deviation_pct = 9.9,
              bs_occupancy = 85, bs_temperature = 34, bs_history = None\<rparr>],
         pathway_state = None\<rparr>"
    "\<lparr>block_id = ''B1'', block_label = ''Block B'', bs_energy_kwh = 55.1,
              baseline_kwh = 35, bs_status = WASTE, savings_kwh = 20.1, bs_deviation_pct = 57.4,
           bs_occupancy = 12, bs_temperature = 26, bs_history = None\<rparr>"]
  by (simp add: snapshot_def hotspots_def)

section \<open>Properties of Sparkline\<close>




















section \<open>Properties of generateHistory\<close>















section \<open>Properties of the classification engine\<close>

lemma mock_B:
  "mockBlocks now ! 1 =
     mock_block ''Block B - CS Dept'' 55.1 35.0 12 26 WASTE 20.1 (generateHistory now 35.0 18 2)"
  by (simp add: mockBlocks_def)


lemma dev_A: "deviation_of scenario_A = 402 / 7"
  by (simp add: deviation_of_def scenario_A_def)


text \<open>
  Claim C2. Scenario A, under every configuration whose tolerance band is narrower than
  57 percent, for which 12 percent occupancy is not high and 26 degrees is inside the
  comfort band: the deviation is 402/7 = 57.43 percent (57.4 to one decimal), the status
  is \<open>WASTE\<close>, the savings are the excess 20.1 kWh, the waste cost is 20.1 * 8 = 160.8 INR
  and the CO2 is 20.1 * 0.7 = 14.07 kg. The mock Block B record holds the scenario's
  energy, baseline, occupancy and temperature with status \<open>WASTE\<close> and savings 20.1, and
  its card prints the deviation 57.4.
\<close>

theorem scenario_A_waste:
  assumes "tolerance_pct cfg < 57"
    and "12 \<le> occupancy_threshold cfg"
    and "comfort_low_c cfg \<le> 26" and "26 \<le> comfort_high_c cfg"
  shows "\<bar>cr_deviation_pct (classify cfg scenario_A) - 57.4\<bar> < 0.05
       \<and> toFixed 1 (cr_deviation_pct (classify cfg scenario_A)) = 57.4
       \<and> cr_status (classify cfg scenario_A) = WASTE
       \<and> cr_savings_kwh (classify cfg scenario_A) = 20.1
       \<and> cr_waste_cost_inr (classify cfg scenario_A) = 160.8
       \<and> cr_co2_kg (classify cfg scenario_A) = 14.07
       \<and> energy_kwh (mockBlocks now ! 1) = er_energy_kwh scenario_A
       \<and> baseline (mockBlocks now ! 1) = er_baseline_kwh scenario_A
       \<and> occupancy (mockBlocks now ! 1) = er_occupancy_pct scenario_A
       \<and> temperature (mockBlocks now ! 1) = er_temperature_c scenario_A
       \<and> status (mockBlocks now ! 1) = WASTE
       \<and> savings (mockBlocks now ! 1) = 20.1
       \<and> card_deviation_shown (render_card (mockBlocks now ! 1)) = Some 57.4"
proof -
  have st: "decide cfg (402 / 7) 12 26 = WASTE"
    using assms
    by (simp add: decide_def band_of_def justified_def high_occupancy_def extreme_temperature_def)
  have c: "classify cfg scenario_A =
    \<lparr> cr_block_id = ''B1'', cr_energy_kwh = 55.1, cr_baseline_kwh = 35, cr_deviation_pct = 402 / 7,
      cr_occupancy_pct = 12, cr_temperature_c = 26, cr_status = WASTE, cr_savings_kwh = 20.1,
      cr_cost_inr = 440.8, cr_waste_cost_inr = 160.8, cr_co2_kg = 14.07,
      cr_root_cause = \<lparr> rc_deviation = AboveBaseline, rc_high_occupancy = False,
        rc_extreme_temperature = False \<rparr>,
      cr_updated_at = 0 \<rparr>"
    using assms
    by (simp add: classify_def Let_def dev_A st savings_of_def)
       (simp add: scenario_A_def st savings_of_def band_of_def high_occupancy_def extreme_temperature_def)
  have d: "cr_deviation_pct (classify cfg scenario_A) = 402 / 7"
    and s: "cr_status (classify cfg scenario_A) = WASTE"
    and v: "cr_savings_kwh (classify cfg scenario_A) = 20.1"
    and w: "cr_waste_cost_inr (classify cfg scenario_A) = 160.8"
    and k: "cr_co2_kg (classify cfg scenario_A) = 14.07"
    unfolding c by simp_all
  have t: "toFixed 1 (402 / 7) = 57.4" by (simp add: toFixed_def)
  have m: "deviation (mockBlocks now ! 1) = Some (402 / 7)"
    unfolding mock_B by (simp add: mock_block_def deviation_def js_div_def)
  have 1: "\<bar>cr_deviation_pct (classify cfg scenario_A) - 57.4\<bar> < 0.05"
    unfolding d by simp
  have 2: "toFixed 1 (cr_deviation_pct (classify cfg scenario_A)) = 57.4"
    unfolding d by (rule t)
  have 3: "energy_kwh (mockBlocks now ! 1) = er_energy_kwh scenario_A"
    "baseline (mockBlocks now ! 1) = er_baseline_kwh scenario_A"
    "occupancy (mockBlocks now ! 1) = er_occupancy_pct scenario_A"
    "temperature (mockBlocks now ! 1) = er_temperature_c scenario_A"
    "status (mockBlocks now ! 1) = WASTE"
    "savings (mockBlocks now ! 1) = 20.1"
    unfolding mock_B by (simp_all add: mock_block_def scenario_A_def)
  have 4: "card_deviation_shown (render_card (mockBlocks now ! 1)) = Some 57.4"
    by (simp only: render_card_def card.simps m option.map t)
  show ?thesis using 1 2 s v w k 3 4 by blast
qed

theorem scenario_A_waste_witness:
  "cr_status (classify
      \<lparr>tolerance_pct = 10, occupancy_threshold = 50, comfort_low_c = 18, comfort_high_c = 30,
        necessary_needs_both = False, possible_waste_fraction = 1 / 2\<rparr> scenario_A) = WASTE
   \<and> cr_waste_cost_inr (classify
      \<lparr>tolerance_pct = 10, occupancy_threshold = 50, comfort_low_c = 18, comfort_high_c = 30,
        necessary_needs_both = False, possible_waste_fraction = 1 / 2\<rparr> scenario_A) = 160.8
   \<and> cr_co2_kg (classify
      \<lparr>tolerance_pct = 10, occupancy_threshold = 50, comfort_low_c = 18, comfort_high_c = 30,
        necessary_needs_both = False, possible_waste_fraction = 1 / 2\<rparr> scenario_A) = 14.07"
  using scenario_A_waste [of
      "\<lparr>tolerance_pct = 10, occupancy_threshold = 50, comfort_low_c = 18, comfort_high_c = 30,
        necessary_needs_both = False, possible_waste_fraction = 1 / 2\<rparr>" 0]
  by simp




end
